theory Spec2Isabelle
  imports Main "HOL-Library.Product_Lexorder" "HOL-Library.Monad_Syntax" "HOL-Library.Multiset"
begin

section \<open>Text helpers of the Python runtime\<close>

text \<open>
  Strings are lists of characters read as code points below 256. \<open>py_isspace\<close> is
  \<^verbatim>\<open>str.isspace\<close> on that range (it is also what \<^verbatim>\<open>\s\<close> matches in a
  \<^verbatim>\<open>str\<close> pattern), \<open>strip\<close> is \<^verbatim>\<open>str.strip()\<close> without argument, and
  \<open>digit_of\<close> reads one decimal digit, the only characters below 256 that
  \<^verbatim>\<open>\d\<close> matches.
\<close>

definition py_isspace :: "char \<Rightarrow> bool" where
  "py_isspace c = (of_char c \<in> {9, 10, 11, 12, 13, 28, 29, 30, 31, 32, 133, 160 :: nat})"

definition strip :: "string \<Rightarrow> string" where
  "strip s = rev (dropWhile py_isspace (rev (dropWhile py_isspace s)))"

definition digit_of :: "char \<Rightarrow> nat option" where
  "digit_of c = (let n = (of_char c :: nat) in if 48 \<le> n \<and> n \<le> 57 then Some (n - 48) else None)"

definition digit_char :: "nat \<Rightarrow> char" where
  "digit_char k = char_of (48 + k)"

text \<open>\<^verbatim>\<open>int(s)\<close> on a text of decimal digits, surrounding white space ignored; any other
  text is a \<^verbatim>\<open>ValueError\<close>, here \<open>None\<close>.\<close>

fun int_digits :: "nat \<Rightarrow> string \<Rightarrow> nat option" where
  "int_digits acc [] = Some acc"
| "int_digits acc (c # cs) =
     (case digit_of c of None \<Rightarrow> None | Some v \<Rightarrow> int_digits (10 * acc + v) cs)"

definition py_int :: "string \<Rightarrow> nat option" where
  "py_int s = (let t = strip s in if t = [] then None else int_digits 0 t)"

text \<open>Decimal digits of a number, most significant first, and zero padding to a width
  (\<^verbatim>\<open>%02d\<close>, \<^verbatim>\<open>%04d\<close>).\<close>

fun digits :: "nat \<Rightarrow> string" where
  "digits n = (if n < 10 then [digit_char n] else digits (n div 10) @ [digit_char (n mod 10)])"

definition zpad :: "nat \<Rightarrow> nat \<Rightarrow> string" where
  "zpad w n = replicate (w - length (digits n)) (CHR ''0'') @ digits n"

section \<open>Naive datetimes\<close>

text \<open>
  \<^verbatim>\<open>datetime.datetime\<close> without time zone: seven fields. Python builds only values that
  satisfy \<open>valid_datetime\<close> and compares two of them field by field, from the year down
  to the microsecond, which is the lexicographic order of \<open>dt_key\<close>.
\<close>

record datetime =
  year :: nat
  month :: nat
  day :: nat
  hour :: nat
  minute :: nat
  second :: nat
  microsecond :: nat

definition is_leap :: "nat \<Rightarrow> bool" where
  "is_leap y = (y mod 4 = 0 \<and> (y mod 100 \<noteq> 0 \<or> y mod 400 = 0))"

definition days_in_month :: "nat \<Rightarrow> nat \<Rightarrow> nat" where
  "days_in_month y m =
     (if m = 2 then (if is_leap y then 29 else 28)
      else if m = 4 \<or> m = 6 \<or> m = 9 \<or> m = 11 then 30 else 31)"


definition dt_key :: "datetime \<Rightarrow> nat \<times> nat \<times> nat \<times> nat \<times> nat \<times> nat \<times> nat" where
  "dt_key d = (year d, month d, day d, hour d, minute d, second d, microsecond d)"

subsection \<open>The canonical format \<^verbatim>\<open>%Y-%m-%d %H:%M\<close>\<close>

text \<open>
  \<^verbatim>\<open>DATE_FORMAT = "%Y-%m-%d %H:%M"\<close>. \<open>strftime\<close> writes the year on four digits and
  the other fields on two, as the Python documentation gives them (0001 to 9999, 01 to 12,
  ...); seconds and microseconds are not written.
\<close>

definition strftime :: "datetime \<Rightarrow> string" where
  "strftime d =
     zpad 4 (year d) @ ''-'' @ zpad 2 (month d) @ ''-'' @ zpad 2 (day d) @ '' '' @
     zpad 2 (hour d) @ '':'' @ zpad 2 (minute d)"

text \<open>
  \<^verbatim>\<open>datetime.strptime\<close> turns the format into a regular expression, one group per
  directive, and matches it at the start of the text:
  \<^verbatim>\<open>
  %Y  \d\d\d\d
  %m  1[0-2]|0[1-9]|[1-9]
  %d  3[0-1]|[1-2]\d|0[1-9]|[1-9]| [1-9]
  %H  2[0-3]|[0-1]\d|\d
  %M  [0-5]\d|\d
  \<close>
  the blank of the format becomes \<^verbatim>\<open>\s+\<close>, text left over after the match is a
  \<^verbatim>\<open>ValueError\<close>, and so is a date that does not exist. Every alternative is a fixed
  sequence of character classes, so a group is a list of alternatives, tried in order.
  The first alternative that matches is kept: a later, shorter one would leave a digit
  in front of \<^verbatim>\<open>-\<close>, \<^verbatim>\<open>\s+\<close>, \<^verbatim>\<open>:\<close> or the end of the text, where none
  of them matches, so backtracking into a group never rescues a match.
\<close>

definition cls :: "nat \<Rightarrow> nat \<Rightarrow> char \<Rightarrow> bool" where
  "cls lo hi c = (case digit_of c of None \<Rightarrow> False | Some v \<Rightarrow> lo \<le> v \<and> v \<le> hi)"

fun match_seq :: "(char \<Rightarrow> bool) list \<Rightarrow> string \<Rightarrow> (string \<times> string) option" where
  "match_seq [] s = Some ([], s)"
| "match_seq (p # ps) [] = None"
| "match_seq (p # ps) (c # s) =
     (if p c then (case match_seq ps s of None \<Rightarrow> None | Some (m, r) \<Rightarrow> Some (c # m, r))
      else None)"

fun match_alts :: "(char \<Rightarrow> bool) list list \<Rightarrow> string \<Rightarrow> (string \<times> string) option" where
  "match_alts [] s = None"
| "match_alts (a # as) s =
     (case match_seq a s of Some r \<Rightarrow> Some r | None \<Rightarrow> match_alts as s)"

definition re_Y :: "(char \<Rightarrow> bool) list list" where
  "re_Y = [[cls 0 9, cls 0 9, cls 0 9, cls 0 9]]"

definition re_m :: "(char \<Rightarrow> bool) list list" where
  "re_m = [[cls 1 1, cls 0 2], [cls 0 0, cls 1 9], [cls 1 9]]"

definition re_d :: "(char \<Rightarrow> bool) list list" where
  "re_d = [[cls 3 3, cls 0 1], [cls 1 2, cls 0 9], [cls 0 0, cls 1 9], [cls 1 9],
           [(\<lambda>c. c = CHR '' ''), cls 1 9]]"

definition re_H :: "(char \<Rightarrow> bool) list list" where
  "re_H = [[cls 2 2, cls 0 3], [cls 0 1, cls 0 9], [cls 0 9]]"

definition re_M :: "(char \<Rightarrow> bool) list list" where
  "re_M = [[cls 0 5, cls 0 9], [cls 0 9]]"

text \<open>One directive: match the group, convert the matched text with \<^verbatim>\<open>int\<close>.\<close>

definition directive :: "(char \<Rightarrow> bool) list list \<Rightarrow> string \<Rightarrow> (nat \<times> string) option" where
  "directive re s =
     (case match_alts re s of None \<Rightarrow> None
      | Some (m, r) \<Rightarrow> (case py_int m of None \<Rightarrow> None | Some v \<Rightarrow> Some (v, r)))"

definition literal :: "char \<Rightarrow> string \<Rightarrow> string option" where
  "literal c s = (case s of [] \<Rightarrow> None | x # r \<Rightarrow> if x = c then Some r else None)"

definition spaces :: "string \<Rightarrow> string option" where
  "spaces s = (case s of [] \<Rightarrow> None
               | x # r \<Rightarrow> if py_isspace x then Some (dropWhile py_isspace r) else None)"

definition strptime :: "string \<Rightarrow> datetime option" where
  "strptime s = do {
     (y, s1) \<leftarrow> directive re_Y s;
     s2 \<leftarrow> literal (CHR ''-'') s1;
     (mo, s3) \<leftarrow> directive re_m s2;
     s4 \<leftarrow> literal (CHR ''-'') s3;
     (dd, s5) \<leftarrow> directive re_d s4;
     s6 \<leftarrow> spaces s5;
     (h, s7) \<leftarrow> directive re_H s6;
     s8 \<leftarrow> literal (CHR '':'') s7;
     (mi, s9) \<leftarrow> directive re_M s8;
     if s9 \<noteq> [] then None
     else if 1 \<le> y \<and> dd \<le> days_in_month y mo
     then Some \<lparr>year = y, month = mo, day = dd, hour = h, minute = mi,
                second = 0, microsecond = 0\<rparr>
     else None
   }"

section \<open>The Reminder class\<close>

text \<open>
  The fields carry the types of the persisted format: texts, a boolean, and the due date as
  a datetime. The first argument of the constructor that matters here, \<^verbatim>\<open>due_date_str\<close>,
  is tested with \<^verbatim>\<open>isinstance\<close>, so its three shapes are kept apart.
\<close>

record reminder =
  task :: string
  priority :: string
  details :: string
  is_completed :: bool
  creation_date :: string
  due_date :: datetime

datatype due_value = DueStr string | DueDatetime datetime | DueOther

text \<open>
  \<^verbatim>\<open>Reminder.__init__\<close>. \<open>now\<close> is what \<^verbatim>\<open>datetime.now()\<close> returns while the
  object is built. \<^verbatim>\<open>creation_date if creation_date else ...\<close> tests truthiness: both
  \<^verbatim>\<open>None\<close> and the empty text take the default.
\<close>

definition Reminder_init ::
  "datetime \<Rightarrow> string \<Rightarrow> due_value \<Rightarrow> string \<Rightarrow> string \<Rightarrow> bool \<Rightarrow> string option \<Rightarrow> reminder" where
  "Reminder_init now t due p det completed cd =
     \<lparr>task = t, priority = p, details = det, is_completed = completed,
      creation_date = (case cd of None \<Rightarrow> strftime now
                       | Some c \<Rightarrow> if c \<noteq> [] then c else strftime now),
      due_date = (case due of
                    DueStr s \<Rightarrow> (case strptime s of Some d \<Rightarrow> d | None \<Rightarrow> now)
                  | DueDatetime d \<Rightarrow> d
                  | DueOther \<Rightarrow> now)\<rparr>"


text \<open>
  The dictionary exchanged with the JSON library: each of the six keys is present or not.
\<close>

record rdict =
  k_task :: "string option"
  k_due_date_str :: "due_value option"
  k_priority :: "string option"
  k_details :: "string option"
  k_is_completed :: "bool option"
  k_creation_date :: "string option"

datatype pyexc = KeyError string | TypeError | JSONDecodeError | FileNotFoundError

definition to_dict :: "reminder \<Rightarrow> rdict" where
  "to_dict r =
     \<lparr>k_task = Some (task r),
      k_due_date_str = Some (DueStr (strftime (due_date r))),
      k_priority = Some (priority r),
      k_details = Some (details r),
      k_is_completed = Some (is_completed r),
      k_creation_date = Some (creation_date r)\<rparr>"

text \<open>
  \<^verbatim>\<open>Reminder.from_dict\<close>: \<^verbatim>\<open>data["task"]\<close>, \<^verbatim>\<open>data["due_date_str"]\<close> and
  \<^verbatim>\<open>data["priority"]\<close> raise \<^verbatim>\<open>KeyError\<close> in this order, the other three keys are
  read with \<^verbatim>\<open>data.get\<close>.
\<close>

definition from_dict :: "datetime \<Rightarrow> rdict \<Rightarrow> pyexc + reminder" where
  "from_dict now data =
     (case k_task data of
        None \<Rightarrow> Inl (KeyError ''task'')
      | Some t \<Rightarrow>
         (case k_due_date_str data of
            None \<Rightarrow> Inl (KeyError ''due_date_str'')
          | Some due \<Rightarrow>
             (case k_priority data of
                None \<Rightarrow> Inl (KeyError ''priority'')
              | Some p \<Rightarrow>
                 Inr (Reminder_init now t due p
                        (case k_details data of None \<Rightarrow> [] | Some x \<Rightarrow> x)
                        (case k_is_completed data of None \<Rightarrow> False | Some b \<Rightarrow> b)
                        (k_creation_date data)))))"

section \<open>The application state\<close>

text \<open>
  \<^verbatim>\<open>self.reminders_list\<close> is a list of references to Reminder objects. Every object is
  put into the list once, when it is built, so the list is kept as pairs of an object
  identity and the object's fields; identities come from a counter, in the order in which
  the objects are built.
\<close>

record app =
  reminders_list :: "(nat \<times> reminder) list"
  next_oid :: nat
  current_filename :: string

definition DEFAULT_FILENAME :: string where
  "DEFAULT_FILENAME = ''reminders_data.json''"

definition PRIORITY_LEVELS :: "string list" where
  "PRIORITY_LEVELS = [''High'', ''Medium'', ''Low'']"

definition init_app :: app where
  "init_app = \<lparr>reminders_list = [], next_oid = 0, current_filename = DEFAULT_FILENAME\<rparr>"

subsection \<open>Sorting\<close>

text \<open>
  \<^verbatim>\<open>priority_map = {level: i for i, level in enumerate(PRIORITY_LEVELS)}\<close>, and the key
  \<^verbatim>\<open>(r.is_completed, r.due_date, priority_map[r.priority])\<close>, whose lookup raises
  \<^verbatim>\<open>KeyError\<close> for a priority outside the three levels. Tuples compare lexicographically,
  \<^verbatim>\<open>False < True\<close>. \<^verbatim>\<open>list.sort\<close> computes the key of every element first; if one
  raises, the list stays as it was. With all keys known it sorts stably, and the result of
  a stable sort does not depend on the algorithm, so the library's insertion sort
  \<open>sort_key\<close> stands for it.
\<close>

type_synonym skey = "bool \<times> (nat \<times> nat \<times> nat \<times> nat \<times> nat \<times> nat \<times> nat) \<times> nat"

definition priority_map :: "string \<Rightarrow> nat option" where
  "priority_map = map_of (zip PRIORITY_LEVELS [0 ..< length PRIORITY_LEVELS])"

definition reminder_key :: "reminder \<Rightarrow> pyexc + skey" where
  "reminder_key r =
     (case priority_map (priority r) of
        None \<Rightarrow> Inl (KeyError (priority r))
      | Some i \<Rightarrow> Inr (is_completed r, dt_key (due_date r), i))"

fun keyed :: "(nat \<times> reminder) list \<Rightarrow> pyexc + (skey \<times> nat \<times> reminder) list" where
  "keyed [] = Inr []"
| "keyed (x # xs) =
     (case reminder_key (snd x) of Inl e \<Rightarrow> Inl e
      | Inr k \<Rightarrow> (case keyed xs of Inl e \<Rightarrow> Inl e | Inr kxs \<Rightarrow> Inr ((k, x) # kxs)))"

definition sort_reminders :: "(nat \<times> reminder) list \<Rightarrow> pyexc + (nat \<times> reminder) list" where
  "sort_reminders xs =
     (case keyed xs of Inl e \<Rightarrow> Inl e | Inr kxs \<Rightarrow> Inr (map snd (sort_key fst kxs)))"

subsection \<open>Documents\<close>

text \<open>
  What \<^verbatim>\<open>open\<close> and \<^verbatim>\<open>json.load\<close> hand to \<^verbatim>\<open>_load_reminders_core\<close>: no file, a
  file that is not JSON, or a JSON value. The list comprehension iterates over the value:
  an array gives its elements, an object its keys and a string its characters (texts, on
  which \<^verbatim>\<open>data["task"]\<close> is a \<^verbatim>\<open>TypeError\<close>, as on every element that is not an
  object), a number, a boolean or null cannot be iterated.
\<close>

datatype jelem = JDict rdict | JNonDict

datatype jdoc = JArray "jelem list" | JObject "string list" | JString string | JScalar

datatype file_read = FileNotFound | NotJSON | Parsed jdoc

definition iter_doc :: "jdoc \<Rightarrow> pyexc + jelem list" where
  "iter_doc doc =
     (case doc of
        JArray es \<Rightarrow> Inr es
      | JObject ks \<Rightarrow> Inr (map (\<lambda>k. JNonDict) ks)
      | JString t \<Rightarrow> Inr (map (\<lambda>c. JNonDict) t)
      | JScalar \<Rightarrow> Inl TypeError)"

definition from_elem :: "datetime \<Rightarrow> jelem \<Rightarrow> pyexc + reminder" where
  "from_elem now e = (case e of JDict data \<Rightarrow> from_dict now data | JNonDict \<Rightarrow> Inl TypeError)"

text \<open>
  \<^verbatim>\<open>[Reminder.from_dict(item) for item in data_loaded]\<close>: the elements in order, the first
  exception ends the comprehension. \<open>clock i\<close> is the time read while element \<open>i\<close> is
  built.
\<close>

fun from_dicts :: "(nat \<Rightarrow> datetime) \<Rightarrow> nat \<Rightarrow> jelem list \<Rightarrow> pyexc + reminder list" where
  "from_dicts clock i [] = Inr []"
| "from_dicts clock i (e # es) =
     (case from_elem (clock i) e of
        Inl x \<Rightarrow> Inl x
      | Inr r \<Rightarrow> (case from_dicts clock (Suc i) es of Inl x \<Rightarrow> Inl x | Inr rs \<Rightarrow> Inr (r # rs)))"

definition encode :: "reminder list \<Rightarrow> jelem list" where
  "encode rs = map (\<lambda>r. JDict (to_dict r)) rs"

definition decode :: "(nat \<Rightarrow> datetime) \<Rightarrow> jelem list \<Rightarrow> pyexc + reminder list" where
  "decode clock es = from_dicts clock 0 es"

subsection \<open>The callbacks\<close>

text \<open>
  Each callback returns what it reported and the state it left. \<open>Uncaught\<close> is an
  exception that leaves the callback (Tk prints it and the application goes on),
  \<open>LoadError\<close> one that \<^verbatim>\<open>_load_reminders_core\<close> caught and showed, \<open>InputError\<close> the
  dialog of a rejected input, \<open>NothingSelected\<close> the information dialog of a callback
  without a selected row, \<open>Declined\<close> a confirmation answered with no.
\<close>

datatype outcome = Done | InputError string | NothingSelected | Declined
  | LoadError pyexc | Uncaught pyexc

text \<open>\<^verbatim>\<open>self._sort_reminders()\<close> on the state.\<close>

definition sort_app :: "app \<Rightarrow> pyexc + app" where
  "sort_app s =
     (case sort_reminders (reminders_list s) of
        Inl e \<Rightarrow> Inl e
      | Inr ys \<Rightarrow> Inr (s\<lparr>reminders_list := ys\<rparr>))"

text \<open>The tail of the callbacks that change the list: sort, then refresh the view.\<close>

definition sort_and_refresh :: "app \<Rightarrow> outcome \<times> app" where
  "sort_and_refresh s = (case sort_app s of Inl e \<Rightarrow> (Uncaught e, s) | Inr s' \<Rightarrow> (Done, s'))"

text \<open>
  \<^verbatim>\<open>_get_selected_reminder_object\<close>: the selected row's identifier is the index it had
  when the view was last filled; an index outside the list gives \<^verbatim>\<open>None\<close>.
\<close>

definition get_selected :: "nat option \<Rightarrow> app \<Rightarrow> nat option" where
  "get_selected sel s =
     (case sel of None \<Rightarrow> None
      | Some i \<Rightarrow> if i < length (reminders_list s) then Some i else None)"

text \<open>
  The five places where a callback changes \<^verbatim>\<open>self.reminders_list\<close> before it sorts:
  \<^verbatim>\<open>append\<close>, the four field assignments of the update, \<^verbatim>\<open>remove\<close> (the first
  element identical to the selected object), the negation of \<^verbatim>\<open>is_completed\<close>, and the
  assignment of the freshly decoded list.
\<close>

definition appended :: "reminder \<Rightarrow> app \<Rightarrow> app" where
  "appended r s =
     s\<lparr>reminders_list := reminders_list s @ [(next_oid s, r)], next_oid := Suc (next_oid s)\<rparr>"

definition updated :: "nat \<Rightarrow> string \<Rightarrow> datetime \<Rightarrow> string \<Rightarrow> string \<Rightarrow> app \<Rightarrow> app" where
  "updated i new_task new_due_date_obj new_priority new_details s =
     s\<lparr>reminders_list := (reminders_list s)
          [i := (fst (reminders_list s ! i),
                 (snd (reminders_list s ! i))
                   \<lparr>task := new_task, priority := new_priority, details := new_details,
                    due_date := new_due_date_obj\<rparr>)]\<rparr>"

definition removed :: "nat \<Rightarrow> app \<Rightarrow> app" where
  "removed i s = s\<lparr>reminders_list := remove1 (reminders_list s ! i) (reminders_list s)\<rparr>"

definition toggled :: "nat \<Rightarrow> app \<Rightarrow> app" where
  "toggled i s =
     s\<lparr>reminders_list := (reminders_list s)
          [i := (fst (reminders_list s ! i),
                 (snd (reminders_list s ! i))
                   \<lparr>is_completed := \<not> is_completed (snd (reminders_list s ! i))\<rparr>)]\<rparr>"

definition assigned :: "reminder list \<Rightarrow> app \<Rightarrow> app" where
  "assigned rs s =
     s\<lparr>reminders_list := zip [next_oid s ..< next_oid s + length rs] rs,
       next_oid := next_oid s + length rs\<rparr>"

definition add_reminder_object :: "reminder \<Rightarrow> app \<Rightarrow> outcome \<times> app" where
  "add_reminder_object r s = sort_and_refresh (appended r s)"

definition add_reminder_from_ui ::
  "datetime \<Rightarrow> string \<Rightarrow> string \<Rightarrow> string \<Rightarrow> string \<Rightarrow> app \<Rightarrow> outcome \<times> app" where
  "add_reminder_from_ui now task_entry due_date_entry priority_var details_text s =
     (let t = strip task_entry; due_date_str = strip due_date_entry;
          det = strip details_text
      in if t = [] then (InputError ''Task cannot be empty.'', s)
         else if due_date_str = [] then (InputError ''Due date cannot be empty.'', s)
         else (case strptime due_date_str of
                 None \<Rightarrow> (InputError ''Invalid due date format. Please use %Y-%m-%d %H:%M.'', s)
               | Some d \<Rightarrow>
                   add_reminder_object
                     (Reminder_init now t (DueStr due_date_str) priority_var det False None) s))"

definition update_selected_reminder ::
  "nat option \<Rightarrow> string \<Rightarrow> string \<Rightarrow> string \<Rightarrow> string \<Rightarrow> app \<Rightarrow> outcome \<times> app" where
  "update_selected_reminder sel task_entry due_date_entry priority_var details_text s =
     (case get_selected sel s of
        None \<Rightarrow> (NothingSelected, s)
      | Some i \<Rightarrow>
         (let new_task = strip task_entry; new_due_date_str = strip due_date_entry;
              new_details = strip details_text
          in if new_task = [] then (InputError ''Task cannot be empty.'', s)
             else if new_due_date_str = [] then (InputError ''Due date cannot be empty.'', s)
             else (case strptime new_due_date_str of
                     None \<Rightarrow> (InputError ''Invalid due date format. Please use %Y-%m-%d %H:%M.'', s)
                   | Some new_due_date_obj \<Rightarrow>
                       sort_and_refresh
                         (updated i new_task new_due_date_obj priority_var new_details s))))"

definition delete_selected_reminder :: "nat option \<Rightarrow> bool \<Rightarrow> app \<Rightarrow> outcome \<times> app" where
  "delete_selected_reminder sel confirmed s =
     (case get_selected sel s of
        None \<Rightarrow> (NothingSelected, s)
      | Some i \<Rightarrow> if confirmed then sort_and_refresh (removed i s) else (Declined, s))"

definition delete_all_reminders :: "bool \<Rightarrow> app \<Rightarrow> outcome \<times> app" where
  "delete_all_reminders confirmed s =
     (if confirmed then (Done, s\<lparr>reminders_list := []\<rparr>) else (Declined, s))"

definition clear_all_fields_and_list :: "bool \<Rightarrow> app \<Rightarrow> outcome \<times> app" where
  "clear_all_fields_and_list confirmed s =
     (if confirmed then (Done, s\<lparr>reminders_list := [], current_filename := DEFAULT_FILENAME\<rparr>)
      else (Declined, s))"

definition toggle_complete_selected :: "nat option \<Rightarrow> app \<Rightarrow> outcome \<times> app" where
  "toggle_complete_selected sel s =
     (case get_selected sel s of
        None \<Rightarrow> (NothingSelected, s)
      | Some i \<Rightarrow> sort_and_refresh (toggled i s))"

text \<open>
  \<^verbatim>\<open>_load_reminders_core\<close>. The new list is assigned to \<^verbatim>\<open>self.reminders_list\<close>
  before \<^verbatim>\<open>self._sort_reminders()\<close> runs, inside the same \<^verbatim>\<open>try\<close>: an exception of
  the sort is caught and shown like the others, with the assignment already done.
\<close>

definition load_reminders_core ::
  "(nat \<Rightarrow> datetime) \<Rightarrow> file_read \<Rightarrow> string \<Rightarrow> app \<Rightarrow> outcome \<times> app" where
  "load_reminders_core clock file filename s =
     (case file of
        FileNotFound \<Rightarrow> (LoadError FileNotFoundError, s)
      | NotJSON \<Rightarrow> (LoadError JSONDecodeError, s)
      | Parsed doc \<Rightarrow>
         (case iter_doc doc of
            Inl e \<Rightarrow> (LoadError e, s)
          | Inr es \<Rightarrow>
             (case from_dicts clock 0 es of
                Inl e \<Rightarrow> (LoadError e, s)
              | Inr rs \<Rightarrow>
                 (case sort_app (assigned rs s) of
                    Inl e \<Rightarrow> (LoadError e, assigned rs s)
                  | Inr s2 \<Rightarrow> (Done, s2\<lparr>current_filename := filename\<rparr>)))))"

text \<open>\<^verbatim>\<open>_save_reminders\<close> writes \<^verbatim>\<open>[r.to_dict() for r in self.reminders_list]\<close>.\<close>

definition saved_document :: "app \<Rightarrow> jdoc" where
  "saved_document s = JArray (encode (map snd (reminders_list s)))"

text \<open>One user action: the event loop runs the callback bound to it.\<close>

datatype action =
    Add string string string string
  | Update "nat option" string string string string
  | Delete "nat option" bool
  | DeleteAll bool
  | NewFile bool
  | Toggle "nat option"
  | Load file_read string

fun step :: "(nat \<Rightarrow> datetime) \<Rightarrow> action \<Rightarrow> app \<Rightarrow> outcome \<times> app" where
  "step clock (Add t d p x) s = add_reminder_from_ui (clock 0) t d p x s"
| "step clock (Update sel t d p x) s = update_selected_reminder sel t d p x s"
| "step clock (Delete sel c) s = delete_selected_reminder sel c s"
| "step clock (DeleteAll c) s = delete_all_reminders c s"
| "step clock (NewFile c) s = clear_all_fields_and_list c s"
| "step clock (Toggle sel) s = toggle_complete_selected sel s"
| "step clock (Load file filename) s = load_reminders_core clock file filename s"

text \<open>A sequence of user actions, each with its own clock.\<close>

fun run :: "(nat \<Rightarrow> datetime) \<Rightarrow> action list \<Rightarrow> app \<Rightarrow> app" where
  "run clock [] s = s"
| "run clock (a # as) s = run clock as (snd (step clock a s))"

section \<open>Properties of the collection\<close>

text \<open>
  \<open>canonical xs ys\<close>: \<open>ys\<close> is \<open>xs\<close> in the canonical order. Every key exists, the keys
  ascend, and the records of one key stand in \<open>ys\<close> as they stood in \<open>xs\<close>.
\<close>

definition canonical :: "(nat \<times> reminder) list \<Rightarrow> (nat \<times> reminder) list \<Rightarrow> bool" where
  "canonical xs ys \<longleftrightarrow>
     (\<exists>kys. keyed ys = Inr kys \<and> sorted (map fst kys)) \<and>
     (\<forall>k. filter (\<lambda>x. reminder_key (snd x) = Inr k) ys
          = filter (\<lambda>x. reminder_key (snd x) = Inr k) xs)"

text \<open>
  The reading of "equal keys keep their insertion order" that the specification states:
  of two records with the same key, the one built first (the smaller identity) stands
  first.
\<close>

fun insertion_order_kept :: "(nat \<times> reminder) list \<Rightarrow> bool" where
  "insertion_order_kept [] = True"
| "insertion_order_kept (x # xs) =
     ((\<forall>y \<in> set xs. reminder_key (snd y) = reminder_key (snd x) \<longrightarrow> fst x < fst y)
      \<and> insertion_order_kept xs)"

text \<open>The invariants of the state: identities are distinct and below the counter.\<close>

definition wf_app :: "app \<Rightarrow> bool" where
  "wf_app s \<longleftrightarrow>
     distinct (map fst (reminders_list s)) \<and> (\<forall>x \<in> set (reminders_list s). fst x < next_oid s)"

definition priorities_ok :: "(nat \<times> reminder) list \<Rightarrow> bool" where
  "priorities_ok xs \<longleftrightarrow> (\<forall>x \<in> set xs. priority (snd x) \<in> set PRIORITY_LEVELS)"

section \<open>Example values\<close>

definition t0 :: datetime where
  "t0 = \<lparr>year = 2025, month = 3, day = 7, hour = 10, minute = 5, second = 12, microsecond = 7\<rparr>"

definition clock0 :: "nat \<Rightarrow> datetime" where
  "clock0 i = t0"

definition d_may :: datetime where
  "d_may = \<lparr>year = 2025, month = 5, day = 1, hour = 10, minute = 0, second = 0, microsecond = 0\<rparr>"

definition r_ex :: "string \<Rightarrow> string \<Rightarrow> bool \<Rightarrow> reminder" where
  "r_ex t p c = \<lparr>task = t, priority = p, details = [], is_completed = c,
                 creation_date = ''2025-03-07 10:05'', due_date = d_may\<rparr>"

definition elem_ex :: "string \<Rightarrow> string \<Rightarrow> string \<Rightarrow> jelem" where
  "elem_ex t d p = JDict \<lparr>k_task = Some t, k_due_date_str = Some (DueStr d), k_priority = Some p,
                          k_details = None, k_is_completed = None, k_creation_date = None\<rparr>"

definition s_two :: app where
  "s_two = \<lparr>reminders_list = [(0, r_ex ''A'' ''High'' False), (1, r_ex ''B'' ''Low'' False)],
            next_oid = 2, current_filename = DEFAULT_FILENAME\<rparr>"

definition s_ab :: app where
  "s_ab = \<lparr>reminders_list = [(0, r_ex ''A'' ''Medium'' False), (1, r_ex ''B'' ''Medium'' False)],
           next_oid = 2, current_filename = DEFAULT_FILENAME\<rparr>"

definition s_ba :: app where
  "s_ba = \<lparr>reminders_list = [(1, r_ex ''B'' ''Medium'' False), (0, r_ex ''A'' ''Medium'' False)],
           next_oid = 2, current_filename = DEFAULT_FILENAME\<rparr>"

section \<open>Formatting and parsing dates\<close>

lemma of_char_digit_char: "k < 10 \<Longrightarrow> (of_char (digit_char k) :: nat) = 48 + k"
  by (simp add: digit_char_def)







lemma strftime_nonempty: "strftime d \<noteq> []"
  by (simp add: strftime_def)



lemma not_space_digit_char: "k < 10 \<Longrightarrow> \<not> py_isspace (digit_char k)"
  by (simp add: py_isspace_def of_char_digit_char)

lemma digit_char_not_blank: "k < 10 \<Longrightarrow> digit_char k \<noteq> CHR '' ''"
  using not_space_digit_char [of k] by (auto simp: py_isspace_def)













lemma space_blank: "py_isspace (CHR '' '')"
  by (simp add: py_isspace_def)



















section \<open>Sorting\<close>

lemma keyed_Inr:
  "keyed xs = Inr kxs \<Longrightarrow>
     map snd kxs = xs \<and> (\<forall>kx \<in> set kxs. reminder_key (snd (snd kx)) = Inr (fst kx))"
  by (induction xs arbitrary: kxs) (auto split: sum.splits)

lemma keyed_map_snd:
  "\<forall>kx \<in> set zs. reminder_key (snd (snd kx)) = Inr (fst kx) \<Longrightarrow> keyed (map snd zs) = Inr zs"
  by (induction zs) auto

lemma priority_map_Some: "(\<exists>i. priority_map p = Some i) \<longleftrightarrow> p \<in> set PRIORITY_LEVELS"
  by (auto simp: priority_map_def PRIORITY_LEVELS_def upt_rec)

lemma keyed_priorities_ok: "(\<exists>kxs. keyed xs = Inr kxs) \<longleftrightarrow> priorities_ok xs"
proof (induction xs)
  case Nil
  then show ?case by (simp add: priorities_ok_def)
next
  case (Cons x xs)
  have k: "(\<exists>k. reminder_key (snd x) = Inr k) \<longleftrightarrow> priority (snd x) \<in> set PRIORITY_LEVELS"
    using priority_map_Some [of "priority (snd x)"]
    by (cases "priority_map (priority (snd x))") (simp_all add: reminder_key_def dt_key_def)
  have "(\<exists>kxs. keyed (x # xs) = Inr kxs) \<longleftrightarrow>
        (\<exists>k. reminder_key (snd x) = Inr k) \<and> (\<exists>kxs. keyed xs = Inr kxs)"
    by (auto split: sum.splits)
  with Cons k show ?case by (simp add: priorities_ok_def)
qed

lemma sort_reminders_Inr:
  assumes "sort_reminders xs = Inr ys"
  shows "canonical xs ys" and "mset ys = mset xs"
proof -
  from assms obtain kxs where k: "keyed xs = Inr kxs" and ys: "ys = map snd (sort_key fst kxs)"
    by (auto simp: sort_reminders_def split: sum.splits)
  from keyed_Inr [OF k] have xs: "map snd kxs = xs"
    and P: "\<forall>kx \<in> set kxs. reminder_key (snd (snd kx)) = Inr (fst kx)" by simp_all
  have kys: "keyed ys = Inr (sort_key fst kxs)"
    unfolding ys using P by (intro keyed_map_snd) simp
  have st: "filter (\<lambda>x. reminder_key (snd x) = Inr c) (map snd zs)
            = map snd (filter (\<lambda>kx. fst kx = c) zs)"
    if "\<forall>kx \<in> set zs. reminder_key (snd (snd kx)) = Inr (fst kx)" for zs c
    using that by (induction zs) auto
  have "filter (\<lambda>x. reminder_key (snd x) = Inr c) ys = filter (\<lambda>x. reminder_key (snd x) = Inr c) xs"
    for c
  proof -
    have "filter (\<lambda>x. reminder_key (snd x) = Inr c) ys
          = map snd (filter (\<lambda>kx. fst kx = c) (sort_key fst kxs))"
      unfolding ys using P by (intro st) simp
    also have "\<dots> = map snd (filter (\<lambda>kx. fst kx = c) kxs)"
      by (simp only: sort_key_stable)
    also have "\<dots> = filter (\<lambda>x. reminder_key (snd x) = Inr c) xs"
      using st [OF P, of c] xs by simp
    finally show ?thesis .
  qed
  with kys show "canonical xs ys"
    unfolding canonical_def by (auto simp: sorted_sort_key)
  show "mset ys = mset xs"
    unfolding ys xs [symmetric] by simp
qed

lemma sort_reminders_ok:
  "priorities_ok xs \<Longrightarrow> \<exists>ys. sort_reminders xs = Inr ys"
  using keyed_priorities_ok [of xs] by (auto simp: sort_reminders_def)

lemma sort_reminders_Inr_ok: "sort_reminders xs = Inr ys \<Longrightarrow> priorities_ok xs"
  using keyed_priorities_ok [of xs] by (auto simp: sort_reminders_def split: sum.splits)

lemma skey_le:
  "((c1 :: bool, d1 :: 'a :: linorder, p1 :: nat) \<le> (c2, d2, p2)) \<longleftrightarrow>
     (\<not> c1 \<and> c2) \<or> (c1 = c2 \<and> (d1 < d2 \<or> (d1 = d2 \<and> p1 \<le> p2)))"
  by (auto simp: less_eq_prod_def)






lemma sort_and_refresh_Done:
  assumes "sort_and_refresh s1 = (Done, s')"
  shows "canonical (reminders_list s1) (reminders_list s')"
    and "mset (reminders_list s') = mset (reminders_list s1)"
    and "next_oid s' = next_oid s1" and "current_filename s' = current_filename s1"
proof -
  from assms obtain ys where ys: "sort_reminders (reminders_list s1) = Inr ys"
    and s': "s' = s1\<lparr>reminders_list := ys\<rparr>"
    by (auto simp: sort_and_refresh_def sort_app_def split: sum.splits)
  from sort_reminders_Inr [OF ys] s'
  show "canonical (reminders_list s1) (reminders_list s')"
    and "mset (reminders_list s') = mset (reminders_list s1)"
    and "next_oid s' = next_oid s1" and "current_filename s' = current_filename s1"
    by simp_all
qed

lemma sort_and_refresh_cases:
  "sort_and_refresh s1 = (out, s') \<Longrightarrow>
     (out = Done \<and> mset (reminders_list s') = mset (reminders_list s1) \<and> next_oid s' = next_oid s1)
   \<or> ((\<exists>e. out = Uncaught e) \<and> s' = s1)"
  by (auto simp: sort_and_refresh_def sort_app_def split: sum.splits dest: sort_reminders_Inr(2))

section \<open>Decoding\<close>


lemma not_a_date: "strptime ''not-a-date'' = None"
  by code_simp

lemma strptime_empty: "strptime [] = None"
  by code_simp

lemma Reminder_init_creation_date: "creation_date (Reminder_init now t due p det c cd) \<noteq> []"
  by (simp add: Reminder_init_def strftime_nonempty split: option.splits)





text \<open>
  C10. \<^verbatim>\<open>from_dict\<close> treats a \<^verbatim>\<open>creation_date\<close> that is present and empty exactly as
  an absent one: the record's creation text becomes the current time in the canonical
  format. So a record whose creation text is empty comes back from \<open>to_dict\<close> and
  \<open>from_dict\<close> with the (non-empty) text of the decode time, not with the empty text.
\<close>

theorem from_dict_empty_creation_date:
  "from_dict now (data\<lparr>k_creation_date := Some []\<rparr>) = from_dict now (data\<lparr>k_creation_date := None\<rparr>)
   \<and> map_sum id creation_date (from_dict now (to_dict (r\<lparr>creation_date := []\<rparr>))) = Inr (strftime now)
   \<and> strftime now \<noteq> []"
  by (simp add: from_dict_def Reminder_init_def to_dict_def strftime_nonempty split: option.splits)

lemma from_dicts_Inr:
  "from_dicts clock i es = Inr rs \<Longrightarrow>
     length rs = length es \<and> (\<forall>j < length es. from_elem (clock (i + j)) (es ! j) = Inr (rs ! j))"
proof (induction es arbitrary: i rs)
  case Nil
  then show ?case by simp
next
  case (Cons e es)
  from Cons.prems obtain r rs' where r: "from_elem (clock i) e = Inr r"
    and rs': "from_dicts clock (Suc i) es = Inr rs'" and rs: "rs = r # rs'"
    by (auto split: sum.splits)
  from Cons.IH [OF rs'] have len: "length rs' = length es"
    and nth: "\<forall>j < length es. from_elem (clock (Suc i + j)) (es ! j) = Inr (rs' ! j)" by simp_all
  show ?case
  proof (intro conjI allI impI)
    show "length rs = length (e # es)" using len rs by simp
  next
    fix j assume "j < length (e # es)"
    then show "from_elem (clock (i + j)) ((e # es) ! j) = Inr (rs ! j)"
      using r nth rs by (cases j) simp_all
  qed
qed

lemma from_dicts_total:
  "\<forall>e \<in> set es. \<forall>now. \<exists>r. from_elem now e = Inr r \<Longrightarrow> \<exists>rs. from_dicts clock i es = Inr rs"
proof (induction es arbitrary: i)
  case Nil
  then show ?case by simp
next
  case (Cons e es)
  from Cons.prems have "\<exists>r. from_elem (clock i) e = Inr r" by simp
  then obtain r where "from_elem (clock i) e = Inr r" ..
  moreover from Cons.prems have "\<forall>e \<in> set es. \<forall>now. \<exists>r. from_elem now e = Inr r" by simp
  from Cons.IH [OF this] obtain rs where "from_dicts clock (Suc i) es = Inr rs" by blast
  ultimately show ?case by simp
qed

lemma from_dicts_fails:
  "e \<in> set es \<Longrightarrow> \<forall>now. \<exists>x. from_elem now e = Inl x \<Longrightarrow> \<exists>x. from_dicts clock i es = Inl x"
proof (induction es arbitrary: i)
  case Nil
  then show ?case by simp
next
  case (Cons a es)
  show ?case
  proof (cases "from_elem (clock i) a")
    case (Inl x)
    then show ?thesis by simp
  next
    case (Inr r)
    from Cons.prems(2) have "e = a \<Longrightarrow> \<exists>x. from_elem (clock i) a = Inl x" by blast
    with Inr Cons.prems(1) have "e \<in> set es" by auto
    from Cons.IH [OF this Cons.prems(2), of "Suc i"] Inr show ?thesis by auto
  qed
qed

lemma from_dict_required:
  "from_dict now data = Inr r \<longleftrightarrow>
     (\<exists>t due p. k_task data = Some t \<and> k_due_date_str data = Some due \<and> k_priority data = Some p \<and>
        r = Reminder_init now t due p (case k_details data of None \<Rightarrow> [] | Some x \<Rightarrow> x)
              (case k_is_completed data of None \<Rightarrow> False | Some b \<Rightarrow> b) (k_creation_date data))"
  by (auto simp: from_dict_def split: option.splits)

lemma priority_Reminder_init: "priority (Reminder_init now t due p det c cd) = p"
  by (simp add: Reminder_init_def)

lemma load_all_ok:
  assumes a: "\<forall>e \<in> set es. \<exists>d p. e = JDict d \<and> k_task d \<noteq> None \<and> k_due_date_str d \<noteq> None
            \<and> k_priority d = Some p \<and> p \<in> set PRIORITY_LEVELS"
  shows "\<exists>s'. load_reminders_core clock (Parsed (JArray es)) fn s = (Done, s')
           \<and> length (reminders_list s') = length es"
proof -
  from a have "\<forall>e \<in> set es. \<forall>now. \<exists>r. from_elem now e = Inr r"
    by (fastforce simp: from_elem_def from_dict_def)
  from from_dicts_total [OF this] obtain rs where rs: "from_dicts clock 0 es = Inr rs" by blast
  from from_dicts_Inr [OF rs] have len: "length rs = length es"
    and nth: "\<forall>j < length es. from_elem (clock j) (es ! j) = Inr (rs ! j)" by simp_all
  have pr: "priority r \<in> set PRIORITY_LEVELS" if "r \<in> set rs" for r
  proof -
    from that len obtain j where j: "j < length es" "r = rs ! j" by (auto simp: in_set_conv_nth)
    with a obtain d p where d: "es ! j = JDict d" "k_priority d = Some p" "p \<in> set PRIORITY_LEVELS"
      by (metis nth_mem)
    from nth j(1) have "from_elem (clock j) (es ! j) = Inr (rs ! j)" by blast
    with d(1) have "from_dict (clock j) d = Inr (rs ! j)" by (simp add: from_elem_def)
    with d(2,3) j(2) show ?thesis by (auto simp: from_dict_required priority_Reminder_init)
  qed
  have "priorities_ok (reminders_list (assigned rs s))"
    unfolding priorities_ok_def assigned_def using pr by (auto dest: set_zip_rightD)
  from sort_reminders_ok [OF this] obtain ys where
    ys: "sort_reminders (reminders_list (assigned rs s)) = Inr ys" by blast
  from sort_reminders_Inr(2) [OF ys] have "length ys = length (reminders_list (assigned rs s))"
    by (rule mset_eq_length)
  then have "length ys = length es" using len by (simp add: assigned_def)
  with rs ys show ?thesis
    by (simp add: load_reminders_core_def iter_doc_def sort_app_def)
qed

lemma load_decode_error:
  assumes "from_dicts clock 0 es = Inl x"
  shows "load_reminders_core clock (Parsed (JArray es)) fn s = (LoadError x, s)"
  using assms by (simp add: load_reminders_core_def iter_doc_def)

lemma strptime_bad_month: "strptime ''2025-13-01 10:00'' = None"
  by code_simp

lemma parse_may: "strptime ''2025-05-01 10:00'' = Some d_may"
  by code_simp

lemma parse_june:
  "strptime ''2025-06-01 10:00'' =
     Some \<lparr>year = 2025, month = 6, day = 1, hour = 10, minute = 0, second = 0, microsecond = 0\<rparr>"
  by code_simp

lemma priority_map_values:
  "priority_map ''High'' = Some 0" "priority_map ''Medium'' = Some 1"
  "priority_map ''Low'' = Some 2" "priority_map ''Urgent'' = None"
  by (simp_all add: priority_map_def PRIORITY_LEVELS_def upt_rec)

lemma load_untouched_cases:
  "load_reminders_core clock NotJSON fn s = (LoadError JSONDecodeError, s)"
  "load_reminders_core clock FileNotFound fn s = (LoadError FileNotFoundError, s)"
  "load_reminders_core clock (Parsed JScalar) fn s = (LoadError TypeError, s)"
  by (simp_all add: load_reminders_core_def iter_doc_def)

lemma load_empty_object:
  "load_reminders_core clock (Parsed (JObject [])) fn s
     = (Done, s\<lparr>reminders_list := [], current_filename := fn\<rparr>)"
  by (simp add: load_reminders_core_def iter_doc_def assigned_def sort_app_def sort_reminders_def)

text \<open>
  C3. A due date text that does not parse never stops a construction: the constructor takes
  the current time as the due date of that one record and leaves the other fields as given;
  \<open>from_dict\<close> on such an element returns a record; and decoding an array whose
  elements all carry the three required keys returns one record per element, each with
  its parsed due date or, where the text does not parse, with the time read while that
  element was built. The element with \<^verbatim>\<open>"due_date_str": "not-a-date"\<close> is the last
  conjunct.
\<close>

theorem unparsable_due_date_falls_back:
  "(strptime s = None \<longrightarrow>
      Reminder_init now t (DueStr s) p det c cd
        = (Reminder_init now t DueOther p det c cd)\<lparr>due_date := now\<rparr>)
   \<and> (strptime s = None \<and> k_task data = Some t \<and> k_due_date_str data = Some (DueStr s)
        \<and> k_priority data = Some p \<longrightarrow>
        (\<exists>r. from_dict now data = Inr r \<and> due_date r = now))
   \<and> ((\<forall>e \<in> set es. \<exists>d. e = JDict d \<and> k_task d \<noteq> None \<and> k_due_date_str d \<noteq> None
            \<and> k_priority d \<noteq> None) \<longrightarrow>
        (\<exists>rs. decode clock es = Inr rs \<and> length rs = length es \<and>
           (\<forall>i < length es. \<forall>d x. es ! i = JDict d \<and> k_due_date_str d = Some (DueStr x) \<longrightarrow>
              due_date (rs ! i) = (case strptime x of None \<Rightarrow> clock i | Some dt \<Rightarrow> dt))))
   \<and> map_sum id due_date (from_elem now (elem_ex t ''not-a-date'' p)) = Inr now"
proof (intro conjI impI)
  assume "strptime s = None"
  then show "Reminder_init now t (DueStr s) p det c cd
        = (Reminder_init now t DueOther p det c cd)\<lparr>due_date := now\<rparr>"
    by (simp add: Reminder_init_def)
next
  assume "strptime s = None \<and> k_task data = Some t \<and> k_due_date_str data = Some (DueStr s)
        \<and> k_priority data = Some p"
  then show "\<exists>r. from_dict now data = Inr r \<and> due_date r = now"
    by (simp add: from_dict_def Reminder_init_def)
next
  assume a: "\<forall>e \<in> set es. \<exists>d. e = JDict d \<and> k_task d \<noteq> None \<and> k_due_date_str d \<noteq> None
            \<and> k_priority d \<noteq> None"
  then have "\<forall>e \<in> set es. \<forall>now. \<exists>r. from_elem now e = Inr r"
    by (fastforce simp: from_elem_def from_dict_def)
  from from_dicts_total [OF this] obtain rs where rs: "from_dicts clock 0 es = Inr rs" by blast
  from from_dicts_Inr [OF rs] have len: "length rs = length es"
    and nth: "\<forall>j < length es. from_elem (clock j) (es ! j) = Inr (rs ! j)" by simp_all
  have "due_date (rs ! i) = (case strptime x of None \<Rightarrow> clock i | Some dt \<Rightarrow> dt)"
    if "i < length es" "es ! i = JDict d" "k_due_date_str d = Some (DueStr x)" for i d x
  proof -
    from nth that(1) have "from_elem (clock i) (es ! i) = Inr (rs ! i)" by blast
    with that(2) have "from_dict (clock i) d = Inr (rs ! i)" by (simp add: from_elem_def)
    with that(3) show ?thesis
      by (auto simp: from_dict_required Reminder_init_def split: option.splits)
  qed
  with rs len show "\<exists>rs. decode clock es = Inr rs \<and> length rs = length es \<and>
           (\<forall>i < length es. \<forall>d x. es ! i = JDict d \<and> k_due_date_str d = Some (DueStr x) \<longrightarrow>
              due_date (rs ! i) = (case strptime x of None \<Rightarrow> clock i | Some dt \<Rightarrow> dt))"
    unfolding decode_def by blast
next
  show "map_sum id due_date (from_elem now (elem_ex t ''not-a-date'' p)) = Inr now"
    by (simp add: from_elem_def elem_ex_def from_dict_def Reminder_init_def not_a_date)
qed


theorem unparsable_due_date_falls_back_witness:
  "strptime ''not-a-date'' = None
   \<and> (\<exists>rs. decode clock0 [elem_ex ''a'' ''not-a-date'' ''High'', elem_ex ''b'' ''2025-05-01 10:00'' ''Low'']
              = Inr rs \<and> length rs = 2)
   \<and> due_date (Reminder_init t0 ''a'' (DueStr ''not-a-date'') ''High'' [] False None) = t0
   \<and> map_sum id due_date (from_elem t0 (elem_ex ''a'' ''not-a-date'' ''High'')) = Inr t0"
proof -
  let ?es = "[elem_ex ''a'' ''not-a-date'' ''High'', elem_ex ''b'' ''2025-05-01 10:00'' ''Low'']"
  let ?d = "\<lparr>k_task = Some ''a'', k_due_date_str = Some (DueStr ''not-a-date''),
             k_priority = Some ''High'', k_details = None, k_is_completed = None,
             k_creation_date = None\<rparr>"
  note inst = unparsable_due_date_falls_back
    [of "''not-a-date''" t0 "''a''" "''High''" "[]" False None ?d ?es clock0]
  have h: "\<forall>e \<in> set ?es. \<exists>d. e = JDict d \<and> k_task d \<noteq> None \<and> k_due_date_str d \<noteq> None
            \<and> k_priority d \<noteq> None"
    by (simp add: elem_ex_def)
  from inst h obtain rs where rs: "decode clock0 ?es = Inr rs" "length rs = length ?es"
    by blast
  from inst not_a_date
  have "Reminder_init t0 ''a'' (DueStr ''not-a-date'') ''High'' [] False None
        = (Reminder_init t0 ''a'' DueOther ''High'' [] False None)\<lparr>due_date := t0\<rparr>"
    by blast
  then have d: "due_date (Reminder_init t0 ''a'' (DueStr ''not-a-date'') ''High'' [] False None) = t0"
    by simp
  from inst have e: "map_sum id due_date (from_elem t0 (elem_ex ''a'' ''not-a-date'' ''High'')) = Inr t0"
    by blast
  from rs h not_a_date d e show ?thesis by auto
qed






text \<open>
  C6. \<open>from_dict\<close> raises \<^verbatim>\<open>KeyError\<close> when \<^verbatim>\<open>task\<close> or \<^verbatim>\<open>priority\<close> is
  absent, and an array with such an element fails the load with the state as it was. With
  the three required keys present it returns a record in which absent details are the
  empty text, an absent completion flag is false and an absent creation date is the
  current time in the canonical format.
\<close>

theorem from_dict_required_keys_and_defaults:
  "(k_task data = None \<longrightarrow> from_dict now data = Inl (KeyError ''task''))
   \<and> (k_task data \<noteq> None \<and> k_due_date_str data \<noteq> None \<and> k_priority data = None \<longrightarrow>
        from_dict now data = Inl (KeyError ''priority''))
   \<and> (JDict data \<in> set es \<and> (k_task data = None \<or> k_priority data = None) \<longrightarrow>
        (\<exists>e. load_reminders_core clock (Parsed (JArray es)) fn s = (LoadError e, s)))
   \<and> (k_task data = Some t \<and> k_due_date_str data = Some due \<and> k_priority data = Some p \<longrightarrow>
        (\<exists>r. from_dict now data = Inr r
           \<and> details r = (case k_details data of None \<Rightarrow> [] | Some x \<Rightarrow> x)
           \<and> is_completed r = (case k_is_completed data of None \<Rightarrow> False | Some b \<Rightarrow> b)
           \<and> creation_date r = (case k_creation_date data of None \<Rightarrow> strftime now
                                | Some c \<Rightarrow> if c = [] then strftime now else c)))"
proof (intro conjI impI)
  assume "k_task data = None"
  then show "from_dict now data = Inl (KeyError ''task'')" by (simp add: from_dict_def)
next
  assume "k_task data \<noteq> None \<and> k_due_date_str data \<noteq> None \<and> k_priority data = None"
  then show "from_dict now data = Inl (KeyError ''priority'')"
    by (auto simp: from_dict_def)
next
  assume a: "JDict data \<in> set es \<and> (k_task data = None \<or> k_priority data = None)"
  then have "\<forall>now. \<exists>x. from_elem now (JDict data) = Inl x"
    by (auto simp: from_elem_def from_dict_def split: option.splits)
  with a from_dicts_fails [of "JDict data" es clock 0]
  obtain x where "from_dicts clock 0 es = Inl x" by blast
  then show "\<exists>e. load_reminders_core clock (Parsed (JArray es)) fn s = (LoadError e, s)"
    by (auto dest: load_decode_error)
next
  assume "k_task data = Some t \<and> k_due_date_str data = Some due \<and> k_priority data = Some p"
  then show "\<exists>r. from_dict now data = Inr r
           \<and> details r = (case k_details data of None \<Rightarrow> [] | Some x \<Rightarrow> x)
           \<and> is_completed r = (case k_is_completed data of None \<Rightarrow> False | Some b \<Rightarrow> b)
           \<and> creation_date r = (case k_creation_date data of None \<Rightarrow> strftime now
                                | Some c \<Rightarrow> if c = [] then strftime now else c)"
    by (simp add: from_dict_def Reminder_init_def split: option.splits)
qed

theorem from_dict_required_keys_and_defaults_witness:
  "from_dict t0 \<lparr>k_task = None, k_due_date_str = Some (DueStr ''2025-05-01 10:00''),
                  k_priority = Some ''High'', k_details = None, k_is_completed = None,
                  k_creation_date = None\<rparr> = Inl (KeyError ''task'')
   \<and> from_dict t0 \<lparr>k_task = Some ''a'', k_due_date_str = Some (DueStr ''2025-05-01 10:00''),
                  k_priority = None, k_details = None, k_is_completed = None,
                  k_creation_date = None\<rparr> = Inl (KeyError ''priority'')
   \<and> (\<exists>e. load_reminders_core clock0
            (Parsed (JArray [elem_ex ''b'' ''2025-05-01 10:00'' ''Low'',
               JDict \<lparr>k_task = Some ''a'', k_due_date_str = Some (DueStr ''2025-05-01 10:00''),
                  k_priority = None, k_details = None, k_is_completed = None,
                  k_creation_date = None\<rparr>])) ''f.json'' s_two = (LoadError e, s_two))
   \<and> (\<exists>r. from_dict t0 \<lparr>k_task = Some ''a'', k_due_date_str = Some (DueStr ''2025-05-01 10:00''),
                  k_priority = Some ''High'', k_details = None, k_is_completed = None,
                  k_creation_date = None\<rparr> = Inr r
          \<and> details r = [] \<and> \<not> is_completed r \<and> creation_date r = ''2025-03-07 10:05'')"
proof -
  let ?no_task = "\<lparr>k_task = None, k_due_date_str = Some (DueStr ''2025-05-01 10:00''),
                  k_priority = Some ''High'', k_details = None, k_is_completed = None,
                  k_creation_date = None\<rparr>"
  let ?no_prio = "\<lparr>k_task = Some ''a'', k_due_date_str = Some (DueStr ''2025-05-01 10:00''),
                  k_priority = None, k_details = None, k_is_completed = None,
                  k_creation_date = None\<rparr>"
  let ?full = "\<lparr>k_task = Some ''a'', k_due_date_str = Some (DueStr ''2025-05-01 10:00''),
                  k_priority = Some ''High'', k_details = None, k_is_completed = None,
                  k_creation_date = None\<rparr>"
  have now: "strftime t0 = ''2025-03-07 10:05''" by code_simp
  from from_dict_required_keys_and_defaults [of ?no_task t0]
  have a: "from_dict t0 ?no_task = Inl (KeyError ''task'')" by simp
  from from_dict_required_keys_and_defaults
    [of ?no_prio t0 "[elem_ex ''b'' ''2025-05-01 10:00'' ''Low'', JDict ?no_prio]" clock0 "''f.json''" s_two]
  have b: "from_dict t0 ?no_prio = Inl (KeyError ''priority'')"
    and c: "\<exists>e. load_reminders_core clock0
            (Parsed (JArray [elem_ex ''b'' ''2025-05-01 10:00'' ''Low'', JDict ?no_prio]))
            ''f.json'' s_two = (LoadError e, s_two)"
    by simp_all
  from from_dict_required_keys_and_defaults
    [of ?full t0 _ _ _ _ "''a''" "DueStr ''2025-05-01 10:00''" "''High''"]
  have d: "\<exists>r. from_dict t0 ?full = Inr r
          \<and> details r = [] \<and> \<not> is_completed r \<and> creation_date r = ''2025-03-07 10:05''"
    by (simp add: now)
  from a b c d show ?thesis by blast
qed


section \<open>Loading\<close>

text \<open>
  C4. The load of the array below fails: \<^verbatim>\<open>_load_reminders_core\<close> reports
  \<^verbatim>\<open>KeyError('Urgent')\<close> as a load error, raised by the sort for a priority outside the
  three levels. The collection that held A and B before the call holds the two decoded
  records after it, unsorted (June before May). The paths of \<open>load_untouched_cases\<close>
  and of a missing key fail before the assignment and leave the collection alone.
\<close>

theorem failed_load_replaces_collection:
  "(case load_reminders_core clock0
          (Parsed (JArray [elem_ex ''b'' ''2025-06-01 10:00'' ''Urgent'',
                           elem_ex ''a'' ''2025-05-01 10:00'' ''High'']))
          ''f.json'' s_two
    of (out, s') \<Rightarrow>
      out = LoadError (KeyError ''Urgent'')
      \<and> map (\<lambda>x. (fst x, task (snd x))) (reminders_list s') = [(2, ''b''), (3, ''a'')])
   \<and> map (\<lambda>x. (fst x, task (snd x))) (reminders_list s_two) = [(0, ''A''), (1, ''B'')]"
  by (simp add: load_reminders_core_def iter_doc_def from_elem_def elem_ex_def from_dict_def
      Reminder_init_def parse_may parse_june assigned_def sort_app_def sort_reminders_def
      reminder_key_def priority_map_values s_two_def r_ex_def upt_rec)


section \<open>Rejected input\<close>

text \<open>
  C5. When the task is empty after stripping, or the due date text does not parse after
  stripping (an empty text does not parse), the add callback reports an input error and
  returns the state it was given; so does the update callback on a selected row, and
  without a selected row it reports that and changes nothing either.
\<close>

theorem rejected_input_changes_nothing:
  assumes "strip t = [] \<or> strptime (strip d) = None"
  shows "(\<exists>msg. add_reminder_from_ui now t d p x s = (InputError msg, s))
       \<and> (get_selected sel s \<noteq> None \<longrightarrow>
            (\<exists>msg. update_selected_reminder sel t d p x s = (InputError msg, s)))
       \<and> (get_selected sel s = None \<longrightarrow>
            update_selected_reminder sel t d p x s = (NothingSelected, s))"
  using assms
  by (auto simp: add_reminder_from_ui_def update_selected_reminder_def Let_def
      split: option.splits)

theorem rejected_input_changes_nothing_witness:
  "(strip ''   '' = [] \<or> strptime (strip ''2025-05-01 10:00'') = None)
   \<and> (strip ''Buy milk'' = [] \<or> strptime (strip ''2025-13-01 10:00'') = None)
   \<and> get_selected (Some 0) s_two \<noteq> None
   \<and> (\<exists>msg. add_reminder_from_ui t0 ''   '' ''2025-05-01 10:00'' ''High'' [] s_two
               = (InputError msg, s_two))
   \<and> (\<exists>msg. update_selected_reminder (Some 0) ''   '' ''2025-05-01 10:00'' ''High'' [] s_two
               = (InputError msg, s_two))
   \<and> (\<exists>msg. add_reminder_from_ui t0 ''Buy milk'' ''2025-13-01 10:00'' ''High'' [] s_two
               = (InputError msg, s_two))"
proof -
  have h1: "strip ''   '' = [] \<or> strptime (strip ''2025-05-01 10:00'') = None"
    by (simp add: strip_def space_blank)
  have "strip ''2025-13-01 10:00'' = ''2025-13-01 10:00''" by code_simp
  then have h2: "strip ''Buy milk'' = [] \<or> strptime (strip ''2025-13-01 10:00'') = None"
    by (simp add: strptime_bad_month)
  have h3: "get_selected (Some 0) s_two \<noteq> None" by (simp add: get_selected_def s_two_def)
  from rejected_input_changes_nothing [OF h1, of t0 "''High''" "[]" s_two "Some 0"]
    rejected_input_changes_nothing [OF h2, of t0 "''High''" "[]" s_two "Some 0"] h1 h2 h3
  show ?thesis by blast
qed



section \<open>Identity and the creation date\<close>


lemma set_update_cases:
  "x \<in> set (xs[i := y]) \<Longrightarrow> x \<in> set xs \<or> (i < length xs \<and> x = y)"
  by (cases "i < length xs")
    (auto simp: list_update_beyond dest: set_update_subset_insert [THEN subsetD])







lemma sort_and_refresh_set:
  "sort_and_refresh s1 = (out, s') \<Longrightarrow>
     mset (reminders_list s') = mset (reminders_list s1) \<and> next_oid s' = next_oid s1"
  using sort_and_refresh_cases [of s1 out s'] by auto

lemma sort_and_refresh_mem:
  "sort_and_refresh s1 = (out, s') \<Longrightarrow> x \<in> set (reminders_list s') \<Longrightarrow> x \<in> set (reminders_list s1)"
  using sort_and_refresh_set [of s1 out s'] by (metis set_mset_mset)

lemma load_cases:
  assumes "load_reminders_core clock fr fn s = (out, s')"
  shows "s' = s \<or> (\<exists>rs. mset (reminders_list s') = mset (reminders_list (assigned rs s))
                      \<and> next_oid s' = next_oid (assigned rs s))"
proof (cases fr)
  case (Parsed doc)
  show ?thesis
  proof (cases "iter_doc doc")
    case (Inl e)
    with Parsed assms show ?thesis by (simp add: load_reminders_core_def)
  next
    case es: (Inr es)
    show ?thesis
    proof (cases "from_dicts clock 0 es")
      case (Inl e)
      with Parsed es assms show ?thesis by (simp add: load_reminders_core_def)
    next
      case rs: (Inr rs)
      show ?thesis
      proof (cases "sort_reminders (reminders_list (assigned rs s))")
        case (Inl e)
        with Parsed es rs assms have "s' = assigned rs s"
          by (simp add: load_reminders_core_def sort_app_def)
        then show ?thesis by blast
      next
        case (Inr ys)
        with Parsed es rs assms have "s' = (assigned rs s)\<lparr>reminders_list := ys, current_filename := fn\<rparr>"
          by (simp add: load_reminders_core_def sort_app_def)
        with sort_reminders_Inr(2) [OF Inr] show ?thesis by auto
      qed
    qed
  qed
qed (use assms in \<open>simp_all add: load_reminders_core_def\<close>)


lemma map_fst_update: "map fst (xs[i := (fst (xs ! i), u)]) = map fst xs"
  by (cases "i < length xs") (simp_all add: map_update list_update_same_conv list_update_beyond)

lemma wf_init: "wf_app init_app"
  by (simp add: wf_app_def init_app_def)

lemma wf_cong:
  assumes "mset (reminders_list s') = mset (reminders_list s1)" "next_oid s' = next_oid s1"
    "wf_app s1"
  shows "wf_app s'"
proof -
  from assms(1) have "mset (map fst (reminders_list s')) = mset (map fst (reminders_list s1))"
    by (metis mset_map)
  then have "distinct (map fst (reminders_list s')) = distinct (map fst (reminders_list s1))"
    by (rule mset_eq_imp_distinct_iff)
  moreover from assms(1) have "set (reminders_list s') = set (reminders_list s1)"
    by (rule mset_eq_setD)
  ultimately show ?thesis using assms(2,3) by (simp add: wf_app_def)
qed

lemma wf_appended: "wf_app s \<Longrightarrow> wf_app (appended r s)"
  by (fastforce simp: wf_app_def appended_def)

lemma wf_update:
  assumes "wf_app s"
  shows "wf_app (s\<lparr>reminders_list := (reminders_list s)[i := (fst (reminders_list s ! i), u)]\<rparr>)"
proof -
  have "fst x < next_oid s" if "x \<in> set ((reminders_list s)[i := (fst (reminders_list s ! i), u)])" for x
    using set_update_cases [OF that] assms by (auto simp: wf_app_def)
  with assms show ?thesis by (simp add: wf_app_def map_fst_update)
qed

lemma wf_updated: "wf_app s \<Longrightarrow> wf_app (updated i t d p x s)"
  unfolding updated_def by (rule wf_update)

lemma wf_toggled: "wf_app s \<Longrightarrow> wf_app (toggled i s)"
  unfolding toggled_def by (rule wf_update)

lemma wf_removed: "wf_app s \<Longrightarrow> wf_app (removed i s)"
proof -
  assume wf: "wf_app s"
  let ?xs = "reminders_list s"
  from wf have "distinct ?xs" "inj_on fst (set ?xs)" by (simp_all add: wf_app_def distinct_map)
  then have "distinct (map fst (remove1 (?xs ! i) ?xs))"
    using set_remove1_subset [of "?xs ! i" ?xs]
    by (auto simp: distinct_map intro: inj_on_subset)
  moreover from wf have "\<forall>x \<in> set (remove1 (?xs ! i) ?xs). fst x < next_oid s"
    using set_remove1_subset [of "?xs ! i" ?xs] by (auto simp: wf_app_def)
  ultimately show ?thesis by (simp add: wf_app_def removed_def)
qed

lemma wf_assigned: "wf_app (assigned rs s)"
  by (auto simp: wf_app_def assigned_def dest!: set_zip_leftD)

lemma wf_sort_and_refresh: "sort_and_refresh s1 = (out, s') \<Longrightarrow> wf_app s1 \<Longrightarrow> wf_app s'"
  using sort_and_refresh_set [of s1 out s'] by (blast intro: wf_cong)

lemma wf_step:
  assumes wf: "wf_app s" and st: "step clock a s = (out, s')"
  shows "wf_app s'"
proof (cases a)
  case (Add t d p x)
  with st wf show ?thesis
    by (auto simp: add_reminder_from_ui_def add_reminder_object_def Let_def
        split: if_splits option.splits dest!: wf_sort_and_refresh intro: wf_appended)
next
  case (Update sel t d p x)
  with st wf show ?thesis
    by (auto simp: update_selected_reminder_def Let_def
        split: if_splits option.splits dest!: wf_sort_and_refresh intro: wf_updated)
next
  case (Delete sel c)
  with st wf show ?thesis
    by (auto simp: delete_selected_reminder_def
        split: if_splits option.splits dest!: wf_sort_and_refresh intro: wf_removed)
next
  case (DeleteAll c)
  with st wf show ?thesis
    by (auto simp: delete_all_reminders_def wf_app_def split: if_splits)
next
  case (NewFile c)
  with st wf show ?thesis
    by (auto simp: clear_all_fields_and_list_def wf_app_def split: if_splits)
next
  case (Toggle sel)
  with st wf show ?thesis
    by (auto simp: toggle_complete_selected_def
        split: option.splits dest!: wf_sort_and_refresh intro: wf_toggled)
next
  case (Load fr fn)
  with st have "load_reminders_core clock fr fn s = (out, s')" by simp
  from load_cases [OF this] wf show ?thesis
    by (auto intro: wf_cong wf_assigned)
qed

lemma wf_run: "wf_app s \<Longrightarrow> wf_app (run clock as s)"
proof (induction as arbitrary: s)
  case Nil
  then show ?case by simp
next
  case (Cons a as)
  have "wf_app (snd (step clock a s))"
    using wf_step [OF Cons.prems, of clock a "fst (step clock a s)" "snd (step clock a s)"] by simp
  with Cons.IH show ?case by simp
qed

lemma from_dicts_creation_date:
  "from_dicts clock i es = Inr rs \<Longrightarrow> \<forall>r \<in> set rs. creation_date r \<noteq> []"
proof (induction es arbitrary: i rs)
  case Nil
  then show ?case by simp
next
  case (Cons e es)
  from Cons.prems obtain r rs' where r: "from_elem (clock i) e = Inr r"
    and rs': "from_dicts clock (Suc i) es = Inr rs'" and rs: "rs = r # rs'"
    by (auto split: sum.splits)
  from r have "creation_date r \<noteq> []"
    by (auto simp: from_elem_def from_dict_required Reminder_init_creation_date split: jelem.splits)
  with Cons.IH [OF rs'] rs show ?case by simp
qed

lemma creation_date_nonempty_step:
  assumes inv: "\<forall>x \<in> set (reminders_list s). creation_date (snd x) \<noteq> []"
    and st: "step clock a s = (out, s')"
  shows "\<forall>x \<in> set (reminders_list s'). creation_date (snd x) \<noteq> []"
proof (cases a)
  case (Add t d p x)
  with st inv show ?thesis
    by (auto simp: add_reminder_from_ui_def add_reminder_object_def Let_def appended_def
        Reminder_init_creation_date
        split: if_splits option.splits dest!: sort_and_refresh_mem)
next
  case (Update sel t d p x)
  with st inv show ?thesis
    by (fastforce simp: update_selected_reminder_def Let_def updated_def
        split: if_splits option.splits dest!: sort_and_refresh_mem set_update_cases)
next
  case (Delete sel c)
  with st inv show ?thesis
    using set_remove1_subset
    by (fastforce simp: delete_selected_reminder_def removed_def
        split: if_splits option.splits dest!: sort_and_refresh_mem)
next
  case (DeleteAll c)
  with st inv show ?thesis by (auto simp: delete_all_reminders_def split: if_splits)
next
  case (NewFile c)
  with st inv show ?thesis by (auto simp: clear_all_fields_and_list_def split: if_splits)
next
  case (Toggle sel)
  with st inv show ?thesis
    by (fastforce simp: toggle_complete_selected_def toggled_def
        split: option.splits dest!: sort_and_refresh_mem set_update_cases)
next
  case (Load fr fn)
  show ?thesis
  proof (cases "s' = s")
    case True
    with inv show ?thesis by simp
  next
    case False
    with st Load obtain es rs where rs: "from_dicts clock 0 es = Inr rs"
      and m: "mset (reminders_list s') = mset (reminders_list (assigned rs s))"
      by (auto simp: load_reminders_core_def sort_app_def
          split: file_read.splits sum.splits dest: sort_reminders_Inr(2))
    from m have "set (reminders_list s') = set (reminders_list (assigned rs s))"
      by (rule mset_eq_setD)
    with from_dicts_creation_date [OF rs] show ?thesis
      by (auto simp: assigned_def dest!: set_zip_rightD)
  qed
qed




section \<open>Completing a reminder\<close>

text \<open>
  Every action that reports success leaves a collection whose priorities are all among the
  three levels: it ends with a sort that computed every key, or with an empty list. So the
  hypothesis on the priorities below holds in every state the application reaches without
  an error.
\<close>

lemma sort_and_refresh_priorities:
  "sort_and_refresh s1 = (Done, s') \<Longrightarrow> priorities_ok (reminders_list s')"
  using sort_and_refresh_Done(1) [of s1 s'] keyed_priorities_ok [of "reminders_list s'"]
  by (auto simp: canonical_def)

lemma done_priorities_ok:
  assumes "step clock a s = (Done, s')"
  shows "priorities_ok (reminders_list s')"
proof (cases a)
  case (Add t d p x)
  with assms show ?thesis
    by (auto simp: add_reminder_from_ui_def add_reminder_object_def Let_def
        split: if_splits option.splits dest: sort_and_refresh_priorities)
next
  case (Update sel t d p x)
  with assms show ?thesis
    by (auto simp: update_selected_reminder_def Let_def
        split: if_splits option.splits dest: sort_and_refresh_priorities)
next
  case (Delete sel c)
  with assms show ?thesis
    by (auto simp: delete_selected_reminder_def
        split: if_splits option.splits dest: sort_and_refresh_priorities)
next
  case (DeleteAll c)
  with assms show ?thesis
    by (auto simp: delete_all_reminders_def priorities_ok_def split: if_splits)
next
  case (NewFile c)
  with assms show ?thesis
    by (auto simp: clear_all_fields_and_list_def priorities_ok_def split: if_splits)
next
  case (Toggle sel)
  with assms show ?thesis
    by (auto simp: toggle_complete_selected_def
        split: option.splits dest: sort_and_refresh_priorities)
next
  case (Load fr fn)
  with assms obtain xs where "sort_reminders xs = Inr (reminders_list s')"
    by (auto simp: load_reminders_core_def sort_app_def split: file_read.splits sum.splits)
  from sort_reminders_Inr(1) [OF this] show ?thesis
    using keyed_priorities_ok [of "reminders_list s'"] by (auto simp: canonical_def)
qed




section \<open>The canonical order\<close>

lemma canonical_order:
  assumes c: "canonical xs ys" and ij: "i < j" "j < length ys"
  shows "\<exists>ri rj. priority_map (priority (snd (ys ! i))) = Some ri
           \<and> priority_map (priority (snd (ys ! j))) = Some rj
           \<and> (is_completed (snd (ys ! i)), dt_key (due_date (snd (ys ! i))), ri)
               \<le> (is_completed (snd (ys ! j)), dt_key (due_date (snd (ys ! j))), rj)"
proof -
  from c obtain kys where k: "keyed ys = Inr kys" and s: "sorted (map fst kys)"
    by (auto simp: canonical_def)
  from keyed_Inr [OF k] have m: "map snd kys = ys"
    and P: "\<forall>kx \<in> set kys. reminder_key (snd (snd kx)) = Inr (fst kx)" by simp_all
  from m have len: "length kys = length ys" by (metis length_map)
  from m ij len have sj: "snd (kys ! i) = ys ! i" and sk: "snd (kys ! j) = ys ! j"
    by (metis nth_map order_less_trans)+
  from P ij len have "reminder_key (snd (snd (kys ! i))) = Inr (fst (kys ! i))"
    and "reminder_key (snd (snd (kys ! j))) = Inr (fst (kys ! j))"
    by simp_all
  with sj sk have ki: "reminder_key (snd (ys ! i)) = Inr (fst (kys ! i))"
    and kj: "reminder_key (snd (ys ! j)) = Inr (fst (kys ! j))" by simp_all
  from s ij len have le: "fst (kys ! i) \<le> fst (kys ! j)"
    by (simp add: sorted_iff_nth_mono)
  from ki obtain ri where ri: "priority_map (priority (snd (ys ! i))) = Some ri"
    "fst (kys ! i) = (is_completed (snd (ys ! i)), dt_key (due_date (snd (ys ! i))), ri)"
    by (auto simp: reminder_key_def split: option.splits)
  from kj obtain rj where rj: "priority_map (priority (snd (ys ! j))) = Some rj"
    "fst (kys ! j) = (is_completed (snd (ys ! j)), dt_key (due_date (snd (ys ! j))), rj)"
    by (auto simp: reminder_key_def split: option.splits)
  from le ri rj show ?thesis by (metis (no_types, lifting))
qed

lemma strip_examples:
  "strip ''A'' = ''A''" "strip ''B'' = ''B''" "strip [] = []"
  "strip ''2025-05-01 10:00'' = ''2025-05-01 10:00''"
  by code_simp+

lemma strftime_t0: "strftime t0 = ''2025-03-07 10:05''"
  by code_simp

lemma skey_simps:
  "((c1 :: bool, d1 :: 'a :: linorder, p1 :: nat) \<le> (c1, d1, p1))"
  "((True, d1, p1) \<le> (False, d2, p2)) = False"
  "((False, d1, p1) \<le> (True, d2, p2)) = True"
  by (simp_all add: less_eq_prod_def)

lemma run_adds:
  "run clock0 [Add ''A'' ''2025-05-01 10:00'' ''Medium'' [],
               Add ''B'' ''2025-05-01 10:00'' ''Medium'' []] init_app = s_ab"
  by (simp add: add_reminder_from_ui_def add_reminder_object_def appended_def strip_examples
      parse_may Reminder_init_def clock0_def strftime_t0 sort_and_refresh_def sort_app_def
      sort_reminders_def reminder_key_def priority_map_values init_app_def s_ab_def r_ex_def)

lemma run_toggles: "run clock0 [Toggle (Some 0), Toggle (Some 1)] s_ab = s_ba"
  by (simp add: toggle_complete_selected_def get_selected_def toggled_def sort_and_refresh_def
      sort_app_def sort_reminders_def reminder_key_def priority_map_values s_ab_def s_ba_def
      r_ex_def skey_simps)

lemma run_append: "run clock (as @ bs) s = run clock bs (run clock as s)"
  by (induction as arbitrary: s) simp_all

lemma example_outcomes:
  "fst (add_reminder_from_ui t0 ''A'' ''2025-05-01 10:00'' ''Medium'' [] init_app) = Done"
  "fst (update_selected_reminder (Some 0) ''B'' ''2025-05-01 10:00'' ''Medium'' [] s_ab) = Done"
  "fst (delete_selected_reminder (Some 0) True s_ab) = Done"
  "fst (toggle_complete_selected (Some 0) s_ab) = Done"
  "fst (load_reminders_core clock0
          (Parsed (JArray [elem_ex ''A'' ''2025-05-01 10:00'' ''Medium'']))
          ''f.json'' init_app) = Done"
  by (simp_all add: add_reminder_from_ui_def add_reminder_object_def appended_def
      update_selected_reminder_def updated_def delete_selected_reminder_def removed_def
      toggle_complete_selected_def toggled_def get_selected_def
      load_reminders_core_def iter_doc_def from_elem_def elem_ex_def from_dict_def assigned_def
      strip_examples parse_may Reminder_init_def clock0_def strftime_t0
      sort_and_refresh_def sort_app_def sort_reminders_def reminder_key_def priority_map_values
      init_app_def s_ab_def r_ex_def skey_simps upt_rec Let_def)

text \<open>
  C1, as stated, says that records with equal keys stay in the order in which they were
  inserted. They do not: A and B are created in this order with the same due date and
  priority; A is completed, which moves it behind B, and reopened, which makes the keys
  equal again. The stable sort keeps the order it finds, so B now stands before A, the
  record created first.
\<close>

theorem insertion_order_not_kept:
  "\<not> insertion_order_kept (reminders_list (run clock0
       [Add ''A'' ''2025-05-01 10:00'' ''Medium'' [], Add ''B'' ''2025-05-01 10:00'' ''Medium'' [],
        Toggle (Some 0), Toggle (Some 1)] init_app))"
proof -
  let ?adds = "[Add ''A'' ''2025-05-01 10:00'' ''Medium'' [],
                Add ''B'' ''2025-05-01 10:00'' ''Medium'' []]"
  have "run clock0 (?adds @ [Toggle (Some 0), Toggle (Some 1)]) init_app = s_ba"
    by (simp only: run_append run_adds run_toggles)
  then have "reminders_list (run clock0
       [Add ''A'' ''2025-05-01 10:00'' ''Medium'' [], Add ''B'' ''2025-05-01 10:00'' ''Medium'' [],
        Toggle (Some 0), Toggle (Some 1)] init_app) = reminders_list s_ba"
    by (simp del: run.simps)
  then show ?thesis
    by (simp add: s_ba_def r_ex_def reminder_key_def priority_map_values del: run.simps)
qed

text \<open>
  C1, amended. After every create, update, delete, toggle and load that completes without
  error, the collection is the list the callback handed to the sort, in canonical order:
  the keys (completed, due date, rank of the priority with High 0, Medium 1, Low 2) ascend
  (\<open>canonical_order\<close> and \<open>skey_le\<close> spell the comparison out), and records with
  equal keys keep the relative order they had in that list, that is, in the collection
  just before the sort, with a new record behind the others and a loaded array in the order
  of the file.
\<close>

theorem resort_is_stable:
  "(add_reminder_from_ui now t d p x s = (Done, s') \<longrightarrow>
      canonical
        (reminders_list
           (appended (Reminder_init now (strip t) (DueStr (strip d)) p (strip x) False None) s))
        (reminders_list s'))
 \<and> (update_selected_reminder sel t d p x s = (Done, s') \<longrightarrow>
      (\<exists>i d'. get_selected sel s = Some i \<and> strptime (strip d) = Some d' \<and>
         canonical (reminders_list (updated i (strip t) d' p (strip x) s)) (reminders_list s')))
 \<and> (delete_selected_reminder sel c s = (Done, s') \<longrightarrow>
      (\<exists>i. get_selected sel s = Some i \<and>
         canonical (reminders_list (removed i s)) (reminders_list s')))
 \<and> (toggle_complete_selected sel s = (Done, s') \<longrightarrow>
      (\<exists>i. get_selected sel s = Some i \<and>
         canonical (reminders_list (toggled i s)) (reminders_list s')))
 \<and> (load_reminders_core clock (Parsed (JArray es)) fn s = (Done, s') \<longrightarrow>
      (\<exists>rs. from_dicts clock 0 es = Inr rs \<and>
         canonical (reminders_list (assigned rs s)) (reminders_list s')))"
proof (intro conjI impI)
  assume "add_reminder_from_ui now t d p x s = (Done, s')"
  then show "canonical
        (reminders_list
           (appended (Reminder_init now (strip t) (DueStr (strip d)) p (strip x) False None) s))
        (reminders_list s')"
    by (auto simp: add_reminder_from_ui_def add_reminder_object_def Let_def
        sort_and_refresh_Done(1) split: option.splits if_splits)
next
  assume "update_selected_reminder sel t d p x s = (Done, s')"
  then show "\<exists>i d'. get_selected sel s = Some i \<and> strptime (strip d) = Some d' \<and>
         canonical (reminders_list (updated i (strip t) d' p (strip x) s)) (reminders_list s')"
    by (auto simp: update_selected_reminder_def Let_def sort_and_refresh_Done(1)
        split: option.splits if_splits)
next
  assume "delete_selected_reminder sel c s = (Done, s')"
  then show "\<exists>i. get_selected sel s = Some i \<and>
         canonical (reminders_list (removed i s)) (reminders_list s')"
    by (auto simp: delete_selected_reminder_def sort_and_refresh_Done(1)
        split: option.splits if_splits)
next
  assume "toggle_complete_selected sel s = (Done, s')"
  then show "\<exists>i. get_selected sel s = Some i \<and>
         canonical (reminders_list (toggled i s)) (reminders_list s')"
    by (auto simp: toggle_complete_selected_def sort_and_refresh_Done(1) split: option.splits)
next
  assume "load_reminders_core clock (Parsed (JArray es)) fn s = (Done, s')"
  then show "\<exists>rs. from_dicts clock 0 es = Inr rs \<and>
         canonical (reminders_list (assigned rs s)) (reminders_list s')"
    by (auto simp: load_reminders_core_def iter_doc_def sort_app_def
        split: sum.splits dest: sort_reminders_Inr(1))
qed

theorem resort_is_stable_witness:
  "canonical
     (reminders_list (appended
        (Reminder_init t0 (strip ''A'') (DueStr (strip ''2025-05-01 10:00'')) ''Medium''
           (strip []) False None) init_app))
     (reminders_list
        (snd (add_reminder_from_ui t0 ''A'' ''2025-05-01 10:00'' ''Medium'' [] init_app)))
   \<and> (\<exists>d'. canonical
          (reminders_list (updated 0 (strip ''B'') d' ''Medium'' (strip []) s_ab))
          (reminders_list
             (snd (update_selected_reminder (Some 0) ''B'' ''2025-05-01 10:00'' ''Medium'' [] s_ab))))
   \<and> canonical (reminders_list (removed 0 s_ab))
        (reminders_list (snd (delete_selected_reminder (Some 0) True s_ab)))
   \<and> canonical (reminders_list (toggled 0 s_ab))
        (reminders_list (snd (toggle_complete_selected (Some 0) s_ab)))
   \<and> (\<exists>rs. canonical (reminders_list (assigned rs init_app))
          (reminders_list (snd (load_reminders_core clock0
             (Parsed (JArray [elem_ex ''A'' ''2025-05-01 10:00'' ''Medium'']))
             ''f.json'' init_app))))"
proof -
  have sel: "get_selected (Some 0) s_ab = Some 0" by (simp add: get_selected_def s_ab_def)
  have e1: "add_reminder_from_ui t0 ''A'' ''2025-05-01 10:00'' ''Medium'' [] init_app
      = (Done, snd (add_reminder_from_ui t0 ''A'' ''2025-05-01 10:00'' ''Medium'' [] init_app))"
    using example_outcomes(1) by (metis prod.collapse)
  have e2: "update_selected_reminder (Some 0) ''B'' ''2025-05-01 10:00'' ''Medium'' [] s_ab
      = (Done, snd (update_selected_reminder (Some 0) ''B'' ''2025-05-01 10:00'' ''Medium'' [] s_ab))"
    using example_outcomes(2) by (metis prod.collapse)
  have e3: "delete_selected_reminder (Some 0) True s_ab
      = (Done, snd (delete_selected_reminder (Some 0) True s_ab))"
    using example_outcomes(3) by (metis prod.collapse)
  have e4: "toggle_complete_selected (Some 0) s_ab
      = (Done, snd (toggle_complete_selected (Some 0) s_ab))"
    using example_outcomes(4) by (metis prod.collapse)
  have e5: "load_reminders_core clock0
          (Parsed (JArray [elem_ex ''A'' ''2025-05-01 10:00'' ''Medium''])) ''f.json'' init_app
      = (Done, snd (load_reminders_core clock0
          (Parsed (JArray [elem_ex ''A'' ''2025-05-01 10:00'' ''Medium''])) ''f.json'' init_app))"
    using example_outcomes(5) by (metis prod.collapse)
  from resort_is_stable [of t0 "''A''" "''2025-05-01 10:00''" "''Medium''" "[]" init_app] e1
  have c1: "canonical
     (reminders_list (appended
        (Reminder_init t0 (strip ''A'') (DueStr (strip ''2025-05-01 10:00'')) ''Medium''
           (strip []) False None) init_app))
     (reminders_list
        (snd (add_reminder_from_ui t0 ''A'' ''2025-05-01 10:00'' ''Medium'' [] init_app)))"
    by blast
  from resort_is_stable [of _ "''B''" "''2025-05-01 10:00''" "''Medium''" "[]" s_ab _ "Some 0"] e2 sel
  have c2: "\<exists>d'. canonical
          (reminders_list (updated 0 (strip ''B'') d' ''Medium'' (strip []) s_ab))
          (reminders_list
             (snd (update_selected_reminder (Some 0) ''B'' ''2025-05-01 10:00'' ''Medium'' [] s_ab)))"
    by fastforce
  from resort_is_stable [of _ _ _ _ _ s_ab _ "Some 0" True] e3 sel
  have c3: "canonical (reminders_list (removed 0 s_ab))
        (reminders_list (snd (delete_selected_reminder (Some 0) True s_ab)))"
    by fastforce
  from resort_is_stable [of _ _ _ _ _ s_ab _ "Some 0"] e4 sel
  have c4: "canonical (reminders_list (toggled 0 s_ab))
        (reminders_list (snd (toggle_complete_selected (Some 0) s_ab)))"
    by fastforce
  from resort_is_stable [of _ _ _ _ _ init_app _ _ _ clock0
      "[elem_ex ''A'' ''2025-05-01 10:00'' ''Medium'']" "''f.json''"] e5
  have c5: "\<exists>rs. canonical (reminders_list (assigned rs init_app))
          (reminders_list (snd (load_reminders_core clock0
             (Parsed (JArray [elem_ex ''A'' ''2025-05-01 10:00'' ''Medium'']))
             ''f.json'' init_app)))"
    by blast
  from c1 c2 c3 c4 c5 show ?thesis by blast
qed

end
